theory Spec2Isabelle
  imports Complex_Main
begin

section \<open>Values of the host language\<close>

text \<open>
  A string is a list of code units, those below 256 (\<open>length\<close> is the \<open>.length\<close> that
  the schema bounds). A number is an IEEE double: a finite one is a rational, and the
  three non-finite ones are kept apart because the schema treats them on their own.
\<close>

datatype js_number = Finite rat | NaN | PosInfinity | NegInfinity

section \<open>Transports\<close>

text \<open>
  The two transport classes of the protocol SDK. Only what the base class touches is
  kept: the option it passes to the streaming transport, and the two streams a pipe
  transport is built on (\<open>new StdioServerTransport()\<close> takes the process's own).
\<close>

datatype session_id_generator = SessionIdGenerator nat

record StreamableHTTPServerTransport =
  sessionIdGenerator :: "session_id_generator option"

datatype stream = process_stdin | process_stdout | custom_stream nat

record StdioServerTransport =
  stdin :: stream
  stdout :: stream

definition new_StdioServerTransport :: StdioServerTransport where
  "new_StdioServerTransport = \<lparr>stdin = process_stdin, stdout = process_stdout\<rparr>"

text \<open>The union \<open>StreamableHTTPServerTransport | StdioServerTransport\<close>; \<open>instanceof\<close>
  is the test on the constructor.\<close>

datatype Transport = HTTP StreamableHTTPServerTransport | STDIO StdioServerTransport

datatype TransportMode = streamable_http | stdio

section \<open>Errors\<close>

text \<open>
  Every \<open>throw\<close> is a value. \<open>ValidationError\<close> is the schema library's error and
  carries the paths of the rejected fields, in the order of the schema;
  \<open>TransportNotInitializedError\<close> carries the message of \<open>getTransporter\<close>;
  \<open>DuplicateNameError\<close>, \<open>ToolNotFound\<close> and \<open>InvalidParams\<close> come from the protocol
  engine.
\<close>

datatype error =
    ValidationError "string list"
  | TransportNotInitializedError string
  | DuplicateNameError string
  | ToolNotFound string
  | InvalidParams string

section \<open>Configuration validator\<close>

text \<open>The constructor's argument as it arrives: optional fields may be absent, and
  the transport mode is still a string.\<close>

record RawConfig =
  raw_name :: string
  raw_version :: string
  raw_host :: "string option"
  raw_port :: "js_number option"
  raw_transportMode :: "string option"
  raw_transport :: "Transport option"

text \<open>The result of \<open>BaseMCPConfigSchema.parse\<close>.\<close>

record BaseMCPConfig =
  cfg_name :: string
  cfg_version :: string
  cfg_host :: string
  cfg_port :: js_number
  cfg_transportMode :: TransportMode
  cfg_transport :: "Transport option"

text \<open>\<open>z.string().min(lo).max(hi)\<close>\<close>

definition z_string_min_max :: "nat \<Rightarrow> nat \<Rightarrow> string \<Rightarrow> bool" where
  "z_string_min_max lo hi s \<longleftrightarrow> lo \<le> length s \<and> length s \<le> hi"

text \<open>\<open>z.number().min(lo).max(hi)\<close>: \<open>NaN\<close> is not a number for the schema, and the
  infinities fall to the bounds. There is no \<open>.int()\<close>.\<close>

fun z_number_min_max :: "rat \<Rightarrow> rat \<Rightarrow> js_number \<Rightarrow> bool" where
  "z_number_min_max lo hi (Finite r) \<longleftrightarrow> lo \<le> r \<and> r \<le> hi"
| "z_number_min_max lo hi NaN \<longleftrightarrow> False"
| "z_number_min_max lo hi PosInfinity \<longleftrightarrow> False"
| "z_number_min_max lo hi NegInfinity \<longleftrightarrow> False"

text \<open>\<open>z.enum(["streamable-http", "stdio"])\<close>\<close>

definition z_enum_TransportMode :: "string \<Rightarrow> TransportMode option" where
  "z_enum_TransportMode s =
     (if s = ''streamable-http'' then Some streamable_http
      else if s = ''stdio'' then Some stdio
      else None)"

text \<open>\<open>.default(d)\<close>: an absent value is replaced before the inner schema runs.\<close>

definition z_default :: "'a \<Rightarrow> 'a option \<Rightarrow> 'a" where
  "z_default d v = (case v of None \<Rightarrow> d | Some x \<Rightarrow> x)"

text \<open>
  \<open>BaseMCPConfigSchema.parse(params)\<close>. Every field is checked and the issues are
  collected; the parse throws when there is one. Both transport classes pass the
  \<open>z.union\<close> of the two \<open>z.instanceof\<close>, and the field is optional, so it raises no
  issue here.
\<close>

definition BaseMCPConfigSchema_parse :: "RawConfig \<Rightarrow> error + BaseMCPConfig" where
  "BaseMCPConfigSchema_parse params =
     (let host' = z_default ''localhost'' (raw_host params);
          port' = z_default (Finite 3000) (raw_port params);
          mode' = z_enum_TransportMode (z_default ''stdio'' (raw_transportMode params));
          issues =
            (if z_string_min_max 2 100 (raw_name params) then [] else [''name'']) @
            (if z_string_min_max 1 10 (raw_version params) then [] else [''version'']) @
            (if z_string_min_max 2 100 host' then [] else [''host'']) @
            (if z_number_min_max 1 65535 port' then [] else [''port'']) @
            (if mode' = None then [''transportMode''] else [])
      in case mode' of
           Some m \<Rightarrow>
             if issues = [] then
               Inr \<lparr>cfg_name = raw_name params, cfg_version = raw_version params,
                    cfg_host = host', cfg_port = port', cfg_transportMode = m,
                    cfg_transport = raw_transport params\<rparr>
             else Inl (ValidationError issues)
         | None \<Rightarrow> Inl (ValidationError issues))"

section \<open>Component registry\<close>

text \<open>
  The shapes handed to the registration calls: objects of schema-library validators.
  Only the validators the greetings server uses are listed: \<open>z.string()\<close> and
  \<open>z.string().min(lo).max(hi)\<close>.
\<close>

datatype ZodType =
    z_string
  | z_string_bounded nat nat

type_synonym ZodRawShape = "(string \<times> ZodType) list"

record ToolConfig =
  description :: string
  inputSchema :: ZodRawShape
  outputSchema :: ZodRawShape

record ResourceConfig =
  res_description :: string
  res_content :: "string option"
  res_metadata :: "(string \<times> string) list option"

text \<open>
  A handler is a bound method (\<open>this.greet.bind(this)\<close>). It reads and may change the
  server that holds it, so the registry stores which method it is (a value of \<open>'h\<close>),
  and the server that registers it says how each one runs.
\<close>

record 'h ToolDescriptor =
  tool_config :: ToolConfig
  tool_handler :: 'h

record 'h ResourceDescriptor =
  res_uri :: string
  res_config :: ResourceConfig
  res_handler :: 'h

text \<open>
  The superclass \<open>McpServer\<close> of the protocol SDK: the registry, in insertion order,
  and the transport it was connected to.
\<close>

record 'h McpServer =
  registeredTools :: "(string \<times> 'h ToolDescriptor) list"
  registeredResources :: "(string \<times> 'h ResourceDescriptor) list"
  connectedTransport :: "Transport option"

text \<open>
  Modelled from the spec: \<open>McpServer.registerTool\<close> belongs to the protocol SDK, which
  is not part of the sources. It adds a descriptor, and fails with
  \<open>DuplicateNameError\<close> if the name already exists in the registry.
\<close>

definition registerTool ::
  "string \<Rightarrow> ToolConfig \<Rightarrow> 'h \<Rightarrow> ('h, 'z) McpServer_scheme \<Rightarrow> error + ('h, 'z) McpServer_scheme"
where
  "registerTool n config handler this =
     (case map_of (registeredTools this) n of
        Some _ \<Rightarrow> Inl (DuplicateNameError n)
      | None \<Rightarrow>
          Inr (this\<lparr>registeredTools :=
                 registeredTools this @ [(n, \<lparr>tool_config = config, tool_handler = handler\<rparr>)]\<rparr>))"

text \<open>
  Modelled from the spec: \<open>McpServer.registerResource\<close> belongs to the protocol SDK.
  It adds a resource descriptor, with the same duplicate-name policy.
\<close>

definition registerResource ::
  "string \<Rightarrow> string \<Rightarrow> ResourceConfig \<Rightarrow> 'h \<Rightarrow> ('h, 'z) McpServer_scheme
     \<Rightarrow> error + ('h, 'z) McpServer_scheme"
where
  "registerResource n uri config handler this =
     (case map_of (registeredResources this) n of
        Some _ \<Rightarrow> Inl (DuplicateNameError n)
      | None \<Rightarrow>
          Inr (this\<lparr>registeredResources :=
                 registeredResources this @
                   [(n, \<lparr>res_uri = uri, res_config = config, res_handler = handler\<rparr>)]\<rparr>))"

text \<open>
  Modelled from the spec: the protocol engine's dispatch of a tool call is not part of
  the sources. A call finds the descriptor registered under the name and runs its
  handler on the input, and the handler's result is what the caller gets; \<open>run\<close> is the
  server's account of its handlers.
\<close>

definition callTool ::
  "('h \<Rightarrow> 'a \<Rightarrow> ('h, 'z) McpServer_scheme \<Rightarrow> error + 'r \<times> ('h, 'z) McpServer_scheme)
     \<Rightarrow> string \<Rightarrow> 'a \<Rightarrow> ('h, 'z) McpServer_scheme
     \<Rightarrow> error + 'r \<times> ('h, 'z) McpServer_scheme"
where
  "callTool run n args this =
     (case map_of (registeredTools this) n of
        None \<Rightarrow> Inl (ToolNotFound n)
      | Some tool \<Rightarrow> run (tool_handler tool) args this)"

text \<open>
  Modelled from the spec: \<open>McpServer.connect\<close> is not part of the sources. It binds the
  transport handle to the protocol engine.
\<close>

definition McpServer_connect ::
  "Transport \<Rightarrow> ('h, 'z) McpServer_scheme \<Rightarrow> ('h, 'z) McpServer_scheme"
where
  "McpServer_connect transporter this = this\<lparr>connectedTransport := Some transporter\<rparr>"

section \<open>The base class\<close>

text \<open>\<open>abstract class BaseMCPServer extends McpServer\<close>\<close>

record 'h BaseMCPServer = "'h McpServer" +
  name :: string
  version :: string
  host :: string
  port :: js_number
  transportMode :: TransportMode
  httpTransporter :: "StreamableHTTPServerTransport option"
  stdioTransporter :: "StdioServerTransport option"

definition initializeTransport ::
  "Transport option \<Rightarrow> 'h BaseMCPServer \<Rightarrow> 'h BaseMCPServer"
where
  "initializeTransport customTransport this =
     (if transportMode this = streamable_http then
        (case customTransport of
           Some (HTTP t) \<Rightarrow> this\<lparr>httpTransporter := Some t\<rparr>
         | _ \<Rightarrow> this\<lparr>httpTransporter := Some \<lparr>sessionIdGenerator = None\<rparr>\<rparr>)
      else
        (case customTransport of
           Some (STDIO t) \<Rightarrow> this\<lparr>stdioTransporter := Some t\<rparr>
         | _ \<Rightarrow> this\<lparr>stdioTransporter := Some new_StdioServerTransport\<rparr>))"

text \<open>
  The constructor. \<open>super(params)\<close> builds the empty \<open>McpServer\<close>; the parse may throw;
  the fields are assigned; the transport is chosen; then the subclass's
  \<open>registerComponents\<close> runs on the instance, and may throw as well.
\<close>

definition BaseMCPServer_constructor ::
  "('h BaseMCPServer \<Rightarrow> error + 'h BaseMCPServer) \<Rightarrow> RawConfig \<Rightarrow> error + 'h BaseMCPServer"
where
  "BaseMCPServer_constructor registerComponents params =
     (case BaseMCPConfigSchema_parse params of
        Inl e \<Rightarrow> Inl e
      | Inr validatedParams \<Rightarrow>
          registerComponents
            (initializeTransport (cfg_transport validatedParams)
               \<lparr>registeredTools = [], registeredResources = [], connectedTransport = None,
                name = cfg_name validatedParams,
                version = cfg_version validatedParams,
                host = cfg_host validatedParams,
                port = cfg_port validatedParams,
                transportMode = cfg_transportMode validatedParams,
                httpTransporter = None,
                stdioTransporter = None\<rparr>))"

definition registerToolHelper ::
  "string \<Rightarrow> ToolConfig \<Rightarrow> 'h \<Rightarrow> 'h BaseMCPServer \<Rightarrow> error + 'h BaseMCPServer"
where
  "registerToolHelper n config handler this = registerTool n config handler this"

definition registerResourceHelper ::
  "string \<Rightarrow> string \<Rightarrow> ResourceConfig \<Rightarrow> 'h \<Rightarrow> 'h BaseMCPServer \<Rightarrow> error + 'h BaseMCPServer"
where
  "registerResourceHelper n uri config handler this = registerResource n uri config handler this"

definition getHTTPTransporter :: "'h BaseMCPServer \<Rightarrow> StreamableHTTPServerTransport option" where
  "getHTTPTransporter this = httpTransporter this"

definition getStdioTransporter :: "'h BaseMCPServer \<Rightarrow> StdioServerTransport option" where
  "getStdioTransporter this = stdioTransporter this"

definition getTransporter :: "'h BaseMCPServer \<Rightarrow> error + Transport" where
  "getTransporter this =
     (if transportMode this = streamable_http then
        (case httpTransporter this of
           None \<Rightarrow> Inl (TransportNotInitializedError ''HTTP transporter is not initialized'')
         | Some t \<Rightarrow> Inr (HTTP t))
      else
        (case stdioTransporter this of
           None \<Rightarrow> Inl (TransportNotInitializedError ''Stdio transporter is not initialized'')
         | Some t \<Rightarrow> Inr (STDIO t)))"

definition connect :: "'h BaseMCPServer \<Rightarrow> error + 'h BaseMCPServer" where
  "connect this =
     (case getTransporter this of
        Inl e \<Rightarrow> Inl e
      | Inr transporter \<Rightarrow> Inr (McpServer_connect transporter this))"

text \<open>\<open>start\<close> writes a line to the console, which is no part of the instance, and
  connects.\<close>

definition start :: "'h BaseMCPServer \<Rightarrow> error + 'h BaseMCPServer" where
  "start this = connect this"



section \<open>Tool results\<close>

text \<open>\<open>{content: [{type: "text", text}, ...], structuredContent?}\<close>; a structured
  payload is an object of strings and numbers.\<close>

datatype 'n json_value = JString string | JNumber 'n

datatype content_item = text_content string

record 'n CallToolResult =
  content :: "content_item list"
  structuredContent :: "(string \<times> 'n json_value) list option"

section \<open>The greetings server\<close>

text \<open>The methods of \<open>GreetingsMCP\<close> that are bound and registered.\<close>

datatype greetings_handler =
  H_greet | H_getNoticeContent | H_registerCustomGreeting | H_customGreet

text \<open>The validated input of a call, by the shape of the tool's input schema:
  \<open>{name}\<close>, \<open>{}\<close>, \<open>{name, message}\<close>.\<close>

datatype greetings_args =
  greet_args string | no_args | customGreet_args string string

definition greet :: "greetings_handler BaseMCPServer \<Rightarrow> string \<Rightarrow> 'n CallToolResult" where
  "greet this args_name =
     \<lparr>content =
        [text_content
           (''Hello, '' @ args_name @ ''! Welcome to '' @ name this @ '' version '' @
            version this @ ''.'')],
      structuredContent =
        Some [(''text'',
               JString
                 (''Hello, '' @ args_name @ ''! Welcome to '' @ name this @ '' version '' @
                  version this @ ''.''))]\<rparr>"

definition customGreet :: "string \<Rightarrow> string \<Rightarrow> 'n CallToolResult" where
  "customGreet args_name args_message =
     \<lparr>content = [text_content (''Hello, '' @ args_name @ ''! '' @ args_message)],
      structuredContent =
        Some [(''text'', JString (''Hello, '' @ args_name @ ''! '' @ args_message))]\<rparr>"

definition registerCustomGreeting ::
  "greetings_handler BaseMCPServer
     \<Rightarrow> error + 'n CallToolResult \<times> greetings_handler BaseMCPServer"
where
  "registerCustomGreeting this =
     (case registerToolHelper ''custom_greet''
             \<lparr>description = ''Greet the user with a custom message'',
              inputSchema = [(''name'', z_string), (''message'', z_string)],
              outputSchema = [(''text'', z_string)]\<rparr>
             H_customGreet this of
        Inl e \<Rightarrow> Inl e
      | Inr this' \<Rightarrow>
          Inr (\<lparr>content = [text_content ''Custom greeting registered successfully!''],
                structuredContent =
                  Some [(''text'', JString ''Custom greeting registered successfully!'')]\<rparr>,
               this'))"

definition GreetingsMCP_registerComponents ::
  "greetings_handler BaseMCPServer \<Rightarrow> error + greetings_handler BaseMCPServer"
where
  "GreetingsMCP_registerComponents this =
     (case registerToolHelper ''greet''
             \<lparr>description = ''Greet the user'',
              inputSchema = [(''name'', z_string_bounded 2 100)],
              outputSchema = [(''text'', z_string)]\<rparr>
             H_greet this of
        Inl e \<Rightarrow> Inl e
      | Inr this1 \<Rightarrow>
     (case registerResourceHelper ''notice.txt''
             ''https://shivajichk.ac.in/pdf/1_International_Yoga_Day_Celebration_ATR.pdf''
             \<lparr>res_description = ''A sample notice file'',
              res_content =
                Some ''/Users/aman/Developer/SynergyBoat/content-gen/src/assets/pdf/notice.pdf'',
              res_metadata = None\<rparr>
             H_getNoticeContent this1 of
        Inl e \<Rightarrow> Inl e
      | Inr this2 \<Rightarrow>
          registerToolHelper ''regiter_custom_greeting''
            \<lparr>description = ''This tool will register new custom greeting message'',
             inputSchema = [],
             outputSchema = [(''text'', z_string)]\<rparr>
            H_registerCustomGreeting this2))"

definition GreetingsMCP_constructor :: "RawConfig \<Rightarrow> error + greetings_handler BaseMCPServer"
where
  "GreetingsMCP_constructor params =
     BaseMCPServer_constructor GreetingsMCP_registerComponents params"

text \<open>
  How the handlers of this server run. The engine hands a tool handler the input it has
  validated against the tool's input schema; an input of another shape never reaches
  the handler. \<open>getNoticeContent\<close> is a resource handler and is not callable as a tool.
\<close>

definition GreetingsMCP_run ::
  "greetings_handler \<Rightarrow> greetings_args \<Rightarrow> greetings_handler BaseMCPServer
     \<Rightarrow> error + 'n CallToolResult \<times> greetings_handler BaseMCPServer"
where
  "GreetingsMCP_run h args this =
     (case h of
        H_greet \<Rightarrow>
          (case args of
             greet_args n \<Rightarrow> Inr (greet this n, this)
           | _ \<Rightarrow> Inl (InvalidParams ''greet''))
      | H_registerCustomGreeting \<Rightarrow> registerCustomGreeting this
      | H_customGreet \<Rightarrow>
          (case args of
             customGreet_args n m \<Rightarrow> Inr (customGreet n m, this)
           | _ \<Rightarrow> Inl (InvalidParams ''custom_greet''))
      | H_getNoticeContent \<Rightarrow> Inl (InvalidParams ''notice.txt''))"

section \<open>The calculator server\<close>



section \<open>The applications\<close>

text \<open>The configurations \<open>src/app.ts\<close> and \<open>src/std-app.ts\<close> construct the greetings
  server from.\<close>

definition app_params :: RawConfig where
  "app_params =
     \<lparr>raw_name = ''Greetings MCP'', raw_version = ''1.0.0'', raw_host = Some ''localhost'',
      raw_port = Some (Finite 3000), raw_transportMode = Some ''streamable-http'',
      raw_transport = None\<rparr>"

definition std_app_params :: RawConfig where
  "std_app_params =
     \<lparr>raw_name = ''Greetings MCP'', raw_version = ''1.0.0'', raw_host = Some ''localhost'',
      raw_port = Some (Finite 3000), raw_transportMode = Some ''stdio'',
      raw_transport = None\<rparr>"

section \<open>The life of an instance\<close>

text \<open>
  The fields of the base class are \<open>private\<close> or \<open>protected readonly\<close>: code of a
  subclass reads them and cannot assign them. A registration hook respects that when the
  instance it returns has them as they were.
\<close>

definition respects_base_fields ::
  "('h BaseMCPServer \<Rightarrow> error + 'h BaseMCPServer) \<Rightarrow> bool"
where
  "respects_base_fields registerComponents \<longleftrightarrow>
     (\<forall>this this'. registerComponents this = Inr this' \<longrightarrow>
        name this' = name this \<and> version this' = version this \<and> host this' = host this \<and>
        port this' = port this \<and> transportMode this' = transportMode this \<and>
        httpTransporter this' = httpTransporter this \<and>
        stdioTransporter this' = stdioTransporter this)"

text \<open>
  The methods of the base class that act on a constructed instance (the accessors only
  read it). A call that throws leaves the instance as it was, and the caller may go on
  with it.
\<close>

datatype 'h method_call =
    call_registerToolHelper string ToolConfig 'h
  | call_registerResourceHelper string string ResourceConfig 'h
  | call_connect
  | call_start

fun perform :: "'h method_call \<Rightarrow> 'h BaseMCPServer \<Rightarrow> error + 'h BaseMCPServer" where
  "perform (call_registerToolHelper n config handler) this =
     registerToolHelper n config handler this"
| "perform (call_registerResourceHelper n uri config handler) this =
     registerResourceHelper n uri config handler this"
| "perform call_connect this = connect this"
| "perform call_start this = start this"

fun after_calls :: "'h method_call list \<Rightarrow> 'h BaseMCPServer \<Rightarrow> 'h BaseMCPServer" where
  "after_calls [] this = this"
| "after_calls (c # cs) this =
     after_calls cs (case perform c this of Inl e \<Rightarrow> this | Inr this' \<Rightarrow> this')"

section \<open>Properties of the configuration validator\<close>

lemma z_number_min_max_iff:
  "z_number_min_max lo hi p \<longleftrightarrow> (\<exists>r. p = Finite r \<and> lo \<le> r \<and> r \<le> hi)"
  by (cases p) simp_all


lemma z_enum_TransportMode_None:
  "z_enum_TransportMode s = None \<longleftrightarrow> s \<noteq> ''streamable-http'' \<and> s \<noteq> ''stdio''"
  by (simp add: z_enum_TransportMode_def)

lemma parse_Inr_iff:
  "BaseMCPConfigSchema_parse params = Inr v \<longleftrightarrow>
     (\<exists>m. z_string_min_max 2 100 (raw_name params) \<and>
        z_string_min_max 1 10 (raw_version params) \<and>
        z_string_min_max 2 100 (z_default ''localhost'' (raw_host params)) \<and>
        z_number_min_max 1 65535 (z_default (Finite 3000) (raw_port params)) \<and>
        z_enum_TransportMode (z_default ''stdio'' (raw_transportMode params)) = Some m \<and>
        v = \<lparr>cfg_name = raw_name params, cfg_version = raw_version params,
             cfg_host = z_default ''localhost'' (raw_host params),
             cfg_port = z_default (Finite 3000) (raw_port params),
             cfg_transportMode = m,
             cfg_transport = raw_transport params\<rparr>)"
  unfolding BaseMCPConfigSchema_parse_def Let_def
  by (cases "z_enum_TransportMode (z_default ''stdio'' (raw_transportMode params))")
     (auto split: if_splits)




lemma parse_issue_iff:
  "(\<exists>issues. BaseMCPConfigSchema_parse params = Inl (ValidationError issues) \<and> f \<in> set issues) \<longleftrightarrow>
     (f = ''name'' \<and> \<not> z_string_min_max 2 100 (raw_name params)) \<or>
     (f = ''version'' \<and> \<not> z_string_min_max 1 10 (raw_version params)) \<or>
     (f = ''host'' \<and> \<not> z_string_min_max 2 100 (z_default ''localhost'' (raw_host params))) \<or>
     (f = ''port'' \<and> \<not> z_number_min_max 1 65535 (z_default (Finite 3000) (raw_port params))) \<or>
     (f = ''transportMode'' \<and>
        z_enum_TransportMode (z_default ''stdio'' (raw_transportMode params)) = None)"
  unfolding BaseMCPConfigSchema_parse_def Let_def
  by (cases "z_enum_TransportMode (z_default ''stdio'' (raw_transportMode params))")
     (auto split: if_splits)

lemma constructor_parse_Inl:
  "BaseMCPConfigSchema_parse params = Inl e \<Longrightarrow>
     BaseMCPServer_constructor registerComponents params = Inl e"
  by (simp add: BaseMCPServer_constructor_def)



lemma half_not_int: "(6001 / 2 :: rat) \<notin> \<int>"
proof
  assume "(6001 / 2 :: rat) \<in> \<int>"
  then obtain n :: int where "(6001 / 2 :: rat) = of_int n" by (auto elim: Ints_cases)
  then have "(of_int 6001 :: rat) = of_int (2 * n)" by simp
  then have "(6001 :: int) = 2 * n" by (simp only: of_int_eq_iff)
  then show False by presburger
qed

text \<open>
  C10. A configuration that supplies a host shorter than 2 or longer than 100 characters
  is rejected with a validation error that names the host, and no server is constructed
  from it; the one-character host "a" is such a host.
\<close>

theorem host_outside_2_to_100_rejected:
  "raw_host params = Some h \<Longrightarrow> length h < 2 \<or> 100 < length h \<Longrightarrow>
     \<exists>issues. ''host'' \<in> set issues \<and>
       BaseMCPConfigSchema_parse params = Inl (ValidationError issues) \<and>
       BaseMCPServer_constructor registerComponents params = Inl (ValidationError issues)"
proof -
  assume h: "raw_host params = Some h" and len: "length h < 2 \<or> 100 < length h"
  have "\<not> z_string_min_max 2 100 (z_default ''localhost'' (raw_host params))"
    using h len by (auto simp: z_default_def z_string_min_max_def)
  then obtain issues where
    "BaseMCPConfigSchema_parse params = Inl (ValidationError issues)" "''host'' \<in> set issues"
    using parse_issue_iff [of params "''host''"] by auto
  then show ?thesis by (auto simp: constructor_parse_Inl)
qed

theorem host_outside_2_to_100_rejected_witness:
  "\<exists>issues. ''host'' \<in> set issues \<and>
     GreetingsMCP_constructor
       \<lparr>raw_name = ''Greetings MCP'', raw_version = ''1.0.0'', raw_host = Some ''a'',
        raw_port = Some (Finite 3000), raw_transportMode = Some ''stdio'',
        raw_transport = None\<rparr> = Inl (ValidationError issues)"
  using host_outside_2_to_100_rejected [of "\<lparr>raw_name = ''Greetings MCP'', raw_version = ''1.0.0'', raw_host = Some ''a'',
        raw_port = Some (Finite 3000), raw_transportMode = Some ''stdio'',
        raw_transport = None\<rparr>" "''a''" GreetingsMCP_registerComponents]
  by (auto simp: GreetingsMCP_constructor_def)

text \<open>
  C9, as stated, fails: the port 3000.5 is not an integer, and the greetings server is
  constructed from a configuration that carries it, keeping 3000.5 as its port.
\<close>

theorem fractional_port_accepted:
  "(6001 / 2 :: rat) \<notin> \<int> \<and>
   GreetingsMCP_constructor
     \<lparr>raw_name = ''Greetings MCP'', raw_version = ''1.0.0'', raw_host = Some ''localhost'',
      raw_port = Some (Finite (6001 / 2)), raw_transportMode = Some ''stdio'',
      raw_transport = None\<rparr> =
   Inr \<lparr>registeredTools =
          [(''greet'',
            \<lparr>tool_config =
               \<lparr>description = ''Greet the user'',
                inputSchema = [(''name'', z_string_bounded 2 100)],
                outputSchema = [(''text'', z_string)]\<rparr>,
             tool_handler = H_greet\<rparr>),
           (''regiter_custom_greeting'',
            \<lparr>tool_config =
               \<lparr>description = ''This tool will register new custom greeting message'',
                inputSchema = [],
                outputSchema = [(''text'', z_string)]\<rparr>,
             tool_handler = H_registerCustomGreeting\<rparr>)],
        registeredResources =
          [(''notice.txt'',
            \<lparr>res_uri =
               ''https://shivajichk.ac.in/pdf/1_International_Yoga_Day_Celebration_ATR.pdf'',
             res_config =
               \<lparr>res_description = ''A sample notice file'',
                res_content =
                  Some ''/Users/aman/Developer/SynergyBoat/content-gen/src/assets/pdf/notice.pdf'',
                res_metadata = None\<rparr>,
             res_handler = H_getNoticeContent\<rparr>)],
        connectedTransport = None,
        name = ''Greetings MCP'', version = ''1.0.0'', host = ''localhost'',
        port = Finite (6001 / 2), transportMode = stdio,
        httpTransporter = None, stdioTransporter = Some new_StdioServerTransport\<rparr>"
  by (simp add: half_not_int GreetingsMCP_constructor_def BaseMCPServer_constructor_def
      BaseMCPConfigSchema_parse_def z_default_def z_string_min_max_def z_enum_TransportMode_def
      initializeTransport_def GreetingsMCP_registerComponents_def registerToolHelper_def
      registerResourceHelper_def registerTool_def registerResource_def)

text \<open>
  C9, amended. A configuration whose port is supplied and is not a number between 1 and
  65535 (it is below 1, above 65535, infinite or not a number) is rejected with a
  validation error that names the port, and no server is constructed from it. The port
  need not be an integer: any number between 1 and 65535, fractional or not, is accepted
  as it is when the rest of the configuration is valid.
\<close>

theorem port_outside_range_rejected:
  "(raw_port params = Some p \<and> \<not> (\<exists>r. p = Finite r \<and> 1 \<le> r \<and> r \<le> 65535) \<longrightarrow>
      (\<exists>issues. ''port'' \<in> set issues \<and>
         BaseMCPConfigSchema_parse params = Inl (ValidationError issues) \<and>
         BaseMCPServer_constructor registerComponents params = Inl (ValidationError issues))) \<and>
   (raw_port params = Some (Finite r) \<and> 1 \<le> r \<and> r \<le> 65535 \<and>
    (\<exists>v. BaseMCPConfigSchema_parse (params\<lparr>raw_port := None\<rparr>) = Inr v) \<longrightarrow>
      (\<exists>v. BaseMCPConfigSchema_parse params = Inr v \<and> cfg_port v = Finite r))"
proof (intro conjI impI)
  assume a: "raw_port params = Some p \<and> \<not> (\<exists>r. p = Finite r \<and> 1 \<le> r \<and> r \<le> 65535)"
  then have "\<not> z_number_min_max 1 65535 (z_default (Finite 3000) (raw_port params))"
    by (simp add: z_default_def z_number_min_max_iff)
  then obtain issues where
    "BaseMCPConfigSchema_parse params = Inl (ValidationError issues)" "''port'' \<in> set issues"
    using parse_issue_iff [of params "''port''"] by auto
  then show "\<exists>issues. ''port'' \<in> set issues \<and>
         BaseMCPConfigSchema_parse params = Inl (ValidationError issues) \<and>
         BaseMCPServer_constructor registerComponents params = Inl (ValidationError issues)"
    by (auto simp: constructor_parse_Inl)
next
  assume a: "raw_port params = Some (Finite r) \<and> 1 \<le> r \<and> r \<le> 65535 \<and>
    (\<exists>v. BaseMCPConfigSchema_parse (params\<lparr>raw_port := None\<rparr>) = Inr v)"
  then show "\<exists>v. BaseMCPConfigSchema_parse params = Inr v \<and> cfg_port v = Finite r"
    by (auto simp: parse_Inr_iff z_default_def)
qed

theorem port_outside_range_rejected_witness:
  "(\<exists>issues. ''port'' \<in> set issues \<and>
      BaseMCPConfigSchema_parse
        \<lparr>raw_name = ''Greetings MCP'', raw_version = ''1.0.0'', raw_host = None,
         raw_port = Some (Finite 65536), raw_transportMode = None, raw_transport = None\<rparr> =
      Inl (ValidationError issues)) \<and>
   (\<exists>v. BaseMCPConfigSchema_parse
        \<lparr>raw_name = ''Greetings MCP'', raw_version = ''1.0.0'', raw_host = None,
         raw_port = Some (Finite (6001 / 2)), raw_transportMode = None,
         raw_transport = None\<rparr> = Inr v \<and> cfg_port v = Finite (6001 / 2))"
proof -
  let ?hi = "\<lparr>raw_name = ''Greetings MCP'', raw_version = ''1.0.0'', raw_host = None,
         raw_port = Some (Finite 65536), raw_transportMode = None, raw_transport = None\<rparr>"
  let ?frac = "\<lparr>raw_name = ''Greetings MCP'', raw_version = ''1.0.0'', raw_host = None,
         raw_port = Some (Finite (6001 / 2)), raw_transportMode = None,
         raw_transport = None\<rparr>"
  have rest: "\<exists>v. BaseMCPConfigSchema_parse (?frac\<lparr>raw_port := None\<rparr>) = Inr v"
    by (simp add: BaseMCPConfigSchema_parse_def z_default_def z_string_min_max_def
        z_enum_TransportMode_def)
  have 1: "\<exists>issues. ''port'' \<in> set issues \<and>
      BaseMCPConfigSchema_parse ?hi = Inl (ValidationError issues)"
    using port_outside_range_rejected [of ?hi "Finite 65536" undefined 0] by auto
  have 2: "\<exists>v. BaseMCPConfigSchema_parse ?frac = Inr v \<and> cfg_port v = Finite (6001 / 2)"
    using port_outside_range_rejected [of ?frac undefined undefined "6001 / 2"] rest by auto
  from 1 2 show ?thesis by blast
qed

section \<open>Properties of the base class\<close>

lemma registerToolHelper_fields:
  "registerToolHelper n config handler this = Inr this' \<Longrightarrow>
     name this' = name this \<and> version this' = version this \<and> host this' = host this \<and>
     port this' = port this \<and> transportMode this' = transportMode this \<and>
     httpTransporter this' = httpTransporter this \<and>
     stdioTransporter this' = stdioTransporter this \<and>
     registeredResources this' = registeredResources this \<and>
     connectedTransport this' = connectedTransport this"
  by (auto simp: registerToolHelper_def registerTool_def split: option.splits)

lemma registerResourceHelper_fields:
  "registerResourceHelper n uri config handler this = Inr this' \<Longrightarrow>
     name this' = name this \<and> version this' = version this \<and> host this' = host this \<and>
     port this' = port this \<and> transportMode this' = transportMode this \<and>
     httpTransporter this' = httpTransporter this \<and>
     stdioTransporter this' = stdioTransporter this \<and>
     registeredTools this' = registeredTools this \<and>
     connectedTransport this' = connectedTransport this"
  by (auto simp: registerResourceHelper_def registerResource_def split: option.splits)

lemma connect_fields:
  "connect this = Inr this' \<Longrightarrow>
     name this' = name this \<and> version this' = version this \<and> host this' = host this \<and>
     port this' = port this \<and> transportMode this' = transportMode this \<and>
     httpTransporter this' = httpTransporter this \<and>
     stdioTransporter this' = stdioTransporter this \<and>
     registeredTools this' = registeredTools this \<and>
     registeredResources this' = registeredResources this"
  by (auto simp: connect_def McpServer_connect_def split: sum.splits)

lemma perform_transport:
  "perform c this = Inr this' \<Longrightarrow>
     transportMode this' = transportMode this \<and>
     httpTransporter this' = httpTransporter this \<and>
     stdioTransporter this' = stdioTransporter this"
  by (cases c)
     (auto simp: start_def dest: registerToolHelper_fields registerResourceHelper_fields
        connect_fields)

lemma after_calls_transport:
  "transportMode (after_calls cs this) = transportMode this \<and>
   httpTransporter (after_calls cs this) = httpTransporter this \<and>
   stdioTransporter (after_calls cs this) = stdioTransporter this"
proof (induction cs arbitrary: this)
  case Nil
  show ?case by simp
next
  case (Cons c cs)
  show ?case
  proof (cases "perform c this")
    case (Inl e)
    then show ?thesis using Cons.IH [of this] by simp
  next
    case (Inr this')
    then show ?thesis using Cons.IH [of this'] perform_transport [OF Inr] by simp
  qed
qed

lemma GreetingsMCP_respects_base_fields:
  "respects_base_fields GreetingsMCP_registerComponents"
  unfolding respects_base_fields_def GreetingsMCP_registerComponents_def
  by (auto split: sum.splits dest!: registerToolHelper_fields registerResourceHelper_fields)

lemma initializeTransport_fields:
  "name (initializeTransport t this) = name this"
  "version (initializeTransport t this) = version this"
  "host (initializeTransport t this) = host this"
  "port (initializeTransport t this) = port this"
  "transportMode (initializeTransport t this) = transportMode this"
  "registeredTools (initializeTransport t this) = registeredTools this"
  "registeredResources (initializeTransport t this) = registeredResources this"
  "connectedTransport (initializeTransport t this) = connectedTransport this"
  by (auto simp: initializeTransport_def split: option.splits Transport.splits)

lemma initializeTransport_http:
  "transportMode this = streamable_http \<Longrightarrow>
     httpTransporter (initializeTransport t this) =
       (case t of Some (HTTP c) \<Rightarrow> Some c | _ \<Rightarrow> Some \<lparr>sessionIdGenerator = None\<rparr>) \<and>
     stdioTransporter (initializeTransport t this) = stdioTransporter this"
  by (auto simp: initializeTransport_def split: option.splits Transport.splits)

lemma initializeTransport_stdio:
  "transportMode this = stdio \<Longrightarrow>
     stdioTransporter (initializeTransport t this) =
       (case t of Some (STDIO c) \<Rightarrow> Some c | _ \<Rightarrow> Some new_StdioServerTransport) \<and>
     httpTransporter (initializeTransport t this) = httpTransporter this"
  by (auto simp: initializeTransport_def split: option.splits Transport.splits)

text \<open>The instance handed to the registration hook.\<close>

lemma constructor_Inr_iff:
  "BaseMCPServer_constructor registerComponents params = Inr srv \<longleftrightarrow>
     (\<exists>v. BaseMCPConfigSchema_parse params = Inr v \<and>
        registerComponents
          (initializeTransport (cfg_transport v)
             \<lparr>registeredTools = [], registeredResources = [], connectedTransport = None,
              name = cfg_name v, version = cfg_version v, host = cfg_host v,
              port = cfg_port v, transportMode = cfg_transportMode v,
              httpTransporter = None, stdioTransporter = None\<rparr>) = Inr srv)"
  by (auto simp: BaseMCPServer_constructor_def split: sum.splits)



lemma GreetingsMCP_registerComponents_fresh:
  assumes "registeredTools this = []" and "registeredResources this = []"
  shows "GreetingsMCP_registerComponents this =
     Inr (this\<lparr>registeredTools :=
            [(''greet'',
              \<lparr>tool_config =
                 \<lparr>description = ''Greet the user'',
                  inputSchema = [(''name'', z_string_bounded 2 100)],
                  outputSchema = [(''text'', z_string)]\<rparr>,
               tool_handler = H_greet\<rparr>),
             (''regiter_custom_greeting'',
              \<lparr>tool_config =
                 \<lparr>description = ''This tool will register new custom greeting message'',
                  inputSchema = [],
                  outputSchema = [(''text'', z_string)]\<rparr>,
               tool_handler = H_registerCustomGreeting\<rparr>)],
          registeredResources :=
            [(''notice.txt'',
              \<lparr>res_uri =
                 ''https://shivajichk.ac.in/pdf/1_International_Yoga_Day_Celebration_ATR.pdf'',
               res_config =
                 \<lparr>res_description = ''A sample notice file'',
                  res_content =
                    Some ''/Users/aman/Developer/SynergyBoat/content-gen/src/assets/pdf/notice.pdf'',
                  res_metadata = None\<rparr>,
               res_handler = H_getNoticeContent\<rparr>)]\<rparr>)"
  using assms
  by (simp add: GreetingsMCP_registerComponents_def registerToolHelper_def
      registerResourceHelper_def registerTool_def registerResource_def)

lemma GreetingsMCP_constructor_succeeds:
  assumes "BaseMCPConfigSchema_parse params = Inr v"
  shows "\<exists>srv. GreetingsMCP_constructor params = Inr srv"
  using assms
  by (simp add: GreetingsMCP_constructor_def BaseMCPServer_constructor_def
      GreetingsMCP_registerComponents_fresh initializeTransport_fields)

lemma parse_app_params:
  "BaseMCPConfigSchema_parse app_params =
     Inr \<lparr>cfg_name = ''Greetings MCP'', cfg_version = ''1.0.0'', cfg_host = ''localhost'',
          cfg_port = Finite 3000, cfg_transportMode = streamable_http, cfg_transport = None\<rparr>"
  by (simp add: app_params_def BaseMCPConfigSchema_parse_def z_default_def
      z_string_min_max_def z_enum_TransportMode_def)

lemma parse_std_app_params:
  "BaseMCPConfigSchema_parse std_app_params =
     Inr \<lparr>cfg_name = ''Greetings MCP'', cfg_version = ''1.0.0'', cfg_host = ''localhost'',
          cfg_port = Finite 3000, cfg_transportMode = stdio, cfg_transport = None\<rparr>"
  by (simp add: std_app_params_def BaseMCPConfigSchema_parse_def z_default_def
      z_string_min_max_def z_enum_TransportMode_def)


text \<open>
  C2. A constructed server has the transport mode its configuration names. In mode
  "stdio" \<open>getHTTPTransporter\<close> returns nothing and \<open>getStdioTransporter\<close> returns a
  transport; in mode "streamable-http" it is the other way round; so exactly one of the
  two is there. Whatever methods of the base class are called afterwards, the mode and
  what the two accessors return stay as they were at construction.
\<close>

theorem transport_accessors_follow_mode:
  assumes "BaseMCPServer_constructor registerComponents params = Inr srv"
    and "respects_base_fields registerComponents"
  shows "z_enum_TransportMode (z_default ''stdio'' (raw_transportMode params)) =
           Some (transportMode srv) \<and>
         (transportMode srv = stdio \<longrightarrow>
            getHTTPTransporter srv = None \<and> getStdioTransporter srv \<noteq> None) \<and>
         (transportMode srv = streamable_http \<longrightarrow>
            getHTTPTransporter srv \<noteq> None \<and> getStdioTransporter srv = None) \<and>
         (getHTTPTransporter srv = None) \<noteq> (getStdioTransporter srv = None) \<and>
         (\<forall>calls.
            transportMode (after_calls calls srv) = transportMode srv \<and>
            getHTTPTransporter (after_calls calls srv) = getHTTPTransporter srv \<and>
            getStdioTransporter (after_calls calls srv) = getStdioTransporter srv)"
proof -
  from assms(1) obtain v where v: "BaseMCPConfigSchema_parse params = Inr v"
    and reg: "registerComponents
          (initializeTransport (cfg_transport v)
             \<lparr>registeredTools = [], registeredResources = [], connectedTransport = None,
              name = cfg_name v, version = cfg_version v, host = cfg_host v,
              port = cfg_port v, transportMode = cfg_transportMode v,
              httpTransporter = None, stdioTransporter = None\<rparr>) = Inr srv"
      (is "registerComponents ?inst = _")
    by (auto simp: constructor_Inr_iff)
  from assms(2) reg have same: "transportMode srv = transportMode ?inst"
    "httpTransporter srv = httpTransporter ?inst" "stdioTransporter srv = stdioTransporter ?inst"
    unfolding respects_base_fields_def by blast+
  have mode: "transportMode srv = cfg_transportMode v"
    using same by (simp add: initializeTransport_fields)
  have enum: "z_enum_TransportMode (z_default ''stdio'' (raw_transportMode params)) =
           Some (transportMode srv)"
    using v mode by (auto simp: parse_Inr_iff)
  have st: "getHTTPTransporter srv = None \<and> getStdioTransporter srv \<noteq> None"
    if "transportMode srv = stdio"
    using that same mode
    by (auto simp: getHTTPTransporter_def getStdioTransporter_def initializeTransport_def
        split: option.splits Transport.splits)
  have ht: "getHTTPTransporter srv \<noteq> None \<and> getStdioTransporter srv = None"
    if "transportMode srv = streamable_http"
    using that same mode
    by (auto simp: getHTTPTransporter_def getStdioTransporter_def initializeTransport_def
        split: option.splits Transport.splits)
  have later: "transportMode (after_calls calls srv) = transportMode srv \<and>
            getHTTPTransporter (after_calls calls srv) = getHTTPTransporter srv \<and>
            getStdioTransporter (after_calls calls srv) = getStdioTransporter srv" for calls
    using after_calls_transport [of calls srv]
    by (simp add: getHTTPTransporter_def getStdioTransporter_def)
  have one: "(getHTTPTransporter srv = None) \<noteq> (getStdioTransporter srv = None)"
    using st ht by (cases "transportMode srv") auto
  from enum st ht one later show ?thesis by blast
qed

theorem transport_accessors_follow_mode_witness:
  "(\<exists>srv. BaseMCPServer_constructor GreetingsMCP_registerComponents std_app_params = Inr srv \<and>
      respects_base_fields GreetingsMCP_registerComponents \<and>
      transportMode srv = stdio \<and>
      getHTTPTransporter srv = None \<and> getStdioTransporter srv \<noteq> None \<and>
      getStdioTransporter (after_calls [call_connect] srv) = getStdioTransporter srv) \<and>
   (\<exists>srv. BaseMCPServer_constructor GreetingsMCP_registerComponents app_params = Inr srv \<and>
      transportMode srv = streamable_http \<and>
      getHTTPTransporter srv \<noteq> None \<and> getStdioTransporter srv = None)"
proof -
  obtain s1 where s1:
    "BaseMCPServer_constructor GreetingsMCP_registerComponents std_app_params = Inr s1"
    using GreetingsMCP_constructor_succeeds [OF parse_std_app_params]
    by (auto simp: GreetingsMCP_constructor_def)
  obtain s2 where s2:
    "BaseMCPServer_constructor GreetingsMCP_registerComponents app_params = Inr s2"
    using GreetingsMCP_constructor_succeeds [OF parse_app_params]
    by (auto simp: GreetingsMCP_constructor_def)
  have m1: "transportMode s1 = stdio"
    using transport_accessors_follow_mode [OF s1 GreetingsMCP_respects_base_fields]
    by (simp add: std_app_params_def z_default_def z_enum_TransportMode_def)
  have m2: "transportMode s2 = streamable_http"
    using transport_accessors_follow_mode [OF s2 GreetingsMCP_respects_base_fields]
    by (simp add: app_params_def z_default_def z_enum_TransportMode_def)
  show ?thesis
    using transport_accessors_follow_mode [OF s1 GreetingsMCP_respects_base_fields]
      transport_accessors_follow_mode [OF s2 GreetingsMCP_respects_base_fields] s1 s2 m1 m2
      GreetingsMCP_respects_base_fields
    by blast
qed

lemma parse_without_transport:
  "BaseMCPConfigSchema_parse params = Inr v \<Longrightarrow>
     BaseMCPConfigSchema_parse (params\<lparr>raw_transport := t\<rparr>) = Inr (v\<lparr>cfg_transport := t\<rparr>)"
  by (auto simp: parse_Inr_iff)

lemma initializeTransport_mismatch:
  "(transportMode this = streamable_http \<and> (\<exists>t. h = STDIO t)) \<or>
   (transportMode this = stdio \<and> (\<exists>t. h = HTTP t)) \<Longrightarrow>
     initializeTransport (Some h) this = initializeTransport None this"
  by (auto simp: initializeTransport_def)

text \<open>
  C3. Take a valid configuration that supplies a transport handle of the other kind than
  its transport mode declares. The construction does not fail on it: a subclass that
  registers nothing is constructed, and a subclass in general runs its registration hook
  on that same instance, so that the construction has the outcome it has when no handle
  is supplied. The handle is ignored: in mode "streamable-http" the instance holds a new
  streaming transport without session-identifier generator and no pipe transport; in
  mode "stdio" it holds a new pipe transport and no streaming one.
\<close>

theorem mismatched_transport_replaced_by_default:
  assumes "BaseMCPConfigSchema_parse params = Inr v"
    and "raw_transport params = Some h"
    and "(cfg_transportMode v = streamable_http \<and> (\<exists>t. h = STDIO t)) \<or>
         (cfg_transportMode v = stdio \<and> (\<exists>t. h = HTTP t))"
  shows "\<exists>this :: 'h BaseMCPServer.
            BaseMCPServer_constructor Inr params = Inr this \<and>
            (\<forall>registerComponents.
               BaseMCPServer_constructor registerComponents params = registerComponents this \<and>
               BaseMCPServer_constructor registerComponents params =
                 BaseMCPServer_constructor registerComponents (params\<lparr>raw_transport := None\<rparr>)) \<and>
            (cfg_transportMode v = streamable_http \<longrightarrow>
               getHTTPTransporter this = Some \<lparr>sessionIdGenerator = None\<rparr> \<and>
               getStdioTransporter this = None) \<and>
            (cfg_transportMode v = stdio \<longrightarrow>
               getStdioTransporter this = Some new_StdioServerTransport \<and>
               getHTTPTransporter this = None)"
proof -
  let ?base = "\<lparr>registeredTools = [], registeredResources = [], connectedTransport = None,
              name = cfg_name v, version = cfg_version v, host = cfg_host v,
              port = cfg_port v, transportMode = cfg_transportMode v,
              httpTransporter = None, stdioTransporter = None\<rparr> :: 'h BaseMCPServer"
  have t: "cfg_transport v = Some h"
    using assms(1,2) by (auto simp: parse_Inr_iff)
  have ignored: "initializeTransport (Some h) ?base = initializeTransport None ?base"
    using assms(3) by (intro initializeTransport_mismatch) simp
  have none: "BaseMCPConfigSchema_parse (params\<lparr>raw_transport := None\<rparr>) =
      Inr (v\<lparr>cfg_transport := None\<rparr>)"
    using assms(1) by (rule parse_without_transport)
  have hook: "BaseMCPServer_constructor registerComponents params =
      registerComponents (initializeTransport None ?base)"
    for registerComponents :: "'h BaseMCPServer \<Rightarrow> error + 'h BaseMCPServer"
    using assms(1) t ignored by (simp add: BaseMCPServer_constructor_def)
  have same: "BaseMCPServer_constructor registerComponents params =
      BaseMCPServer_constructor registerComponents (params\<lparr>raw_transport := None\<rparr>)"
    for registerComponents :: "'h BaseMCPServer \<Rightarrow> error + 'h BaseMCPServer"
    using hook [of registerComponents] none by (simp add: BaseMCPServer_constructor_def)
  have http: "getHTTPTransporter (initializeTransport None ?base) =
        Some \<lparr>sessionIdGenerator = None\<rparr> \<and>
      getStdioTransporter (initializeTransport None ?base) = None"
    if "cfg_transportMode v = streamable_http"
    using that
    by (simp add: initializeTransport_def getHTTPTransporter_def getStdioTransporter_def)
  have pipe: "getStdioTransporter (initializeTransport None ?base) =
        Some new_StdioServerTransport \<and>
      getHTTPTransporter (initializeTransport None ?base) = None"
    if "cfg_transportMode v = stdio"
    using that
    by (simp add: initializeTransport_def getHTTPTransporter_def getStdioTransporter_def)
  show ?thesis
    using hook [of Inr] hook same http pipe
    by (intro exI [of _ "initializeTransport None ?base"]) blast
qed

theorem mismatched_transport_replaced_by_default_witness:
  "(\<exists>this.
      BaseMCPServer_constructor Inr
        (app_params\<lparr>raw_transport :=
           Some (STDIO \<lparr>stdin = custom_stream 0, stdout = custom_stream 1\<rparr>)\<rparr>) = Inr this \<and>
      GreetingsMCP_constructor
        (app_params\<lparr>raw_transport :=
           Some (STDIO \<lparr>stdin = custom_stream 0, stdout = custom_stream 1\<rparr>)\<rparr>) =
        GreetingsMCP_registerComponents this \<and>
      getHTTPTransporter this = Some \<lparr>sessionIdGenerator = None\<rparr> \<and>
      getStdioTransporter this = None) \<and>
   (\<exists>this.
      BaseMCPServer_constructor Inr
        (std_app_params\<lparr>raw_transport :=
           Some (HTTP \<lparr>sessionIdGenerator = Some (SessionIdGenerator 0)\<rparr>)\<rparr>) = Inr this \<and>
      GreetingsMCP_constructor
        (std_app_params\<lparr>raw_transport :=
           Some (HTTP \<lparr>sessionIdGenerator = Some (SessionIdGenerator 0)\<rparr>)\<rparr>) =
        GreetingsMCP_registerComponents this \<and>
      getStdioTransporter this = Some new_StdioServerTransport \<and>
      getHTTPTransporter this = None)"
proof -
  let ?pipe = "STDIO \<lparr>stdin = custom_stream 0, stdout = custom_stream 1\<rparr>"
  let ?web = "HTTP \<lparr>sessionIdGenerator = Some (SessionIdGenerator 0)\<rparr>"
  have p1: "BaseMCPConfigSchema_parse (app_params\<lparr>raw_transport := Some ?pipe\<rparr>) =
      Inr \<lparr>cfg_name = ''Greetings MCP'', cfg_version = ''1.0.0'', cfg_host = ''localhost'',
          cfg_port = Finite 3000, cfg_transportMode = streamable_http,
          cfg_transport = Some ?pipe\<rparr>"
    using parse_without_transport [OF parse_app_params, of "Some ?pipe"] by simp
  have p2: "BaseMCPConfigSchema_parse (std_app_params\<lparr>raw_transport := Some ?web\<rparr>) =
      Inr \<lparr>cfg_name = ''Greetings MCP'', cfg_version = ''1.0.0'', cfg_host = ''localhost'',
          cfg_port = Finite 3000, cfg_transportMode = stdio,
          cfg_transport = Some ?web\<rparr>"
    using parse_without_transport [OF parse_std_app_params, of "Some ?web"] by simp
  have 1: "\<exists>this.
      BaseMCPServer_constructor Inr (app_params\<lparr>raw_transport := Some ?pipe\<rparr>) = Inr this \<and>
      GreetingsMCP_constructor (app_params\<lparr>raw_transport := Some ?pipe\<rparr>) =
        GreetingsMCP_registerComponents this \<and>
      getHTTPTransporter this = Some \<lparr>sessionIdGenerator = None\<rparr> \<and>
      getStdioTransporter this = None"
    using mismatched_transport_replaced_by_default
      [OF p1, of ?pipe, where ?'h = greetings_handler]
    by (auto simp: app_params_def GreetingsMCP_constructor_def)
  have 2: "\<exists>this.
      BaseMCPServer_constructor Inr (std_app_params\<lparr>raw_transport := Some ?web\<rparr>) = Inr this \<and>
      GreetingsMCP_constructor (std_app_params\<lparr>raw_transport := Some ?web\<rparr>) =
        GreetingsMCP_registerComponents this \<and>
      getStdioTransporter this = Some new_StdioServerTransport \<and>
      getHTTPTransporter this = None"
    using mismatched_transport_replaced_by_default
      [OF p2, of ?web, where ?'h = greetings_handler]
    by (auto simp: std_app_params_def GreetingsMCP_constructor_def)
  from 1 2 show ?thesis by (rule conjI)
qed

section \<open>Properties of the registry and of the greetings server\<close>

lemma registerToolHelper_duplicate:
  "map_of (registeredTools this) n \<noteq> None \<Longrightarrow>
     registerToolHelper n config handler this = Inl (DuplicateNameError n)"
  by (auto simp: registerToolHelper_def registerTool_def)

lemma registerToolHelper_new:
  "map_of (registeredTools this) n = None \<Longrightarrow>
     registerToolHelper n config handler this =
       Inr (this\<lparr>registeredTools :=
              registeredTools this @ [(n, \<lparr>tool_config = config, tool_handler = handler\<rparr>)]\<rparr>)"
  by (simp add: registerToolHelper_def registerTool_def)

lemma GreetingsMCP_constructor_eq:
  assumes "BaseMCPConfigSchema_parse params = Inr v"
  shows "GreetingsMCP_constructor params =
     Inr ((initializeTransport (cfg_transport v)
             \<lparr>registeredTools = [], registeredResources = [], connectedTransport = None,
              name = cfg_name v, version = cfg_version v, host = cfg_host v,
              port = cfg_port v, transportMode = cfg_transportMode v,
              httpTransporter = None, stdioTransporter = None\<rparr>)
          \<lparr>registeredTools :=
            [(''greet'',
              \<lparr>tool_config =
                 \<lparr>description = ''Greet the user'',
                  inputSchema = [(''name'', z_string_bounded 2 100)],
                  outputSchema = [(''text'', z_string)]\<rparr>,
               tool_handler = H_greet\<rparr>),
             (''regiter_custom_greeting'',
              \<lparr>tool_config =
                 \<lparr>description = ''This tool will register new custom greeting message'',
                  inputSchema = [],
                  outputSchema = [(''text'', z_string)]\<rparr>,
               tool_handler = H_registerCustomGreeting\<rparr>)],
          registeredResources :=
            [(''notice.txt'',
              \<lparr>res_uri =
                 ''https://shivajichk.ac.in/pdf/1_International_Yoga_Day_Celebration_ATR.pdf'',
               res_config =
                 \<lparr>res_description = ''A sample notice file'',
                  res_content =
                    Some ''/Users/aman/Developer/SynergyBoat/content-gen/src/assets/pdf/notice.pdf'',
                  res_metadata = None\<rparr>,
               res_handler = H_getNoticeContent\<rparr>)]\<rparr>)"
  using assms
  by (simp add: GreetingsMCP_constructor_def BaseMCPServer_constructor_def
      GreetingsMCP_registerComponents_fresh initializeTransport_fields)

lemma parse_name_only:
  assumes "2 \<le> length n" and "length n \<le> 100"
  shows "BaseMCPConfigSchema_parse
       \<lparr>raw_name = n, raw_version = ''1.0'', raw_host = None, raw_port = None,
        raw_transportMode = Some ''stdio'', raw_transport = None\<rparr> =
     Inr \<lparr>cfg_name = n, cfg_version = ''1.0'', cfg_host = ''localhost'',
          cfg_port = Finite 3000, cfg_transportMode = stdio, cfg_transport = None\<rparr>"
  using assms
  by (simp add: BaseMCPConfigSchema_parse_def z_default_def z_string_min_max_def
      z_enum_TransportMode_def)

text \<open>
  C5. On any server, registering a tool under a name that is in the registry fails with
  \<open>DuplicateNameError\<close>. Registering two tools under two distinct names that are not in
  the registry succeeds for both; a further registration under the first name then
  fails; and after the two registrations a call of either name runs the handler
  registered under that name.
\<close>

theorem distinct_names_register_duplicate_fails:
  "(map_of (registeredTools this) n \<noteq> None \<longrightarrow>
      registerToolHelper n config handler this = Inl (DuplicateNameError n)) \<and>
   (map_of (registeredTools this) na = None \<and> map_of (registeredTools this) nb = None \<and>
    na \<noteq> nb \<longrightarrow>
      (\<exists>this1 this2.
         registerToolHelper na config_a handler_a this = Inr this1 \<and>
         registerToolHelper na config handler this1 = Inl (DuplicateNameError na) \<and>
         registerToolHelper nb config_b handler_b this1 = Inr this2 \<and>
         callTool run na args_a this2 = run handler_a args_a this2 \<and>
         callTool run nb args_b this2 = run handler_b args_b this2))"
proof (intro conjI impI)
  assume "map_of (registeredTools this) n \<noteq> None"
  then show "registerToolHelper n config handler this = Inl (DuplicateNameError n)"
    by (rule registerToolHelper_duplicate)
next
  assume a: "map_of (registeredTools this) na = None \<and> map_of (registeredTools this) nb = None \<and>
    na \<noteq> nb"
  define this1 where "this1 = this\<lparr>registeredTools :=
      registeredTools this @ [(na, \<lparr>tool_config = config_a, tool_handler = handler_a\<rparr>)]\<rparr>"
  define this2 where "this2 = this1\<lparr>registeredTools :=
      registeredTools this1 @ [(nb, \<lparr>tool_config = config_b, tool_handler = handler_b\<rparr>)]\<rparr>"
  have r1: "registerToolHelper na config_a handler_a this = Inr this1"
    using a by (simp add: registerToolHelper_new this1_def)
  have l1: "map_of (registeredTools this1) na =
      Some \<lparr>tool_config = config_a, tool_handler = handler_a\<rparr>"
    and l2: "map_of (registeredTools this1) nb = None"
    using a by (auto simp: this1_def map_add_def)
  have dup: "registerToolHelper na config handler this1 = Inl (DuplicateNameError na)"
    using l1 by (intro registerToolHelper_duplicate) simp
  have r2: "registerToolHelper nb config_b handler_b this1 = Inr this2"
    using l2 by (simp add: registerToolHelper_new this2_def)
  have c1: "callTool run na args_a this2 = run handler_a args_a this2"
    using l1 by (simp add: callTool_def this2_def map_add_def)
  have c2: "callTool run nb args_b this2 = run handler_b args_b this2"
    using l2 by (simp add: callTool_def this2_def map_add_def)
  from r1 dup r2 c1 c2 show "\<exists>this1 this2.
         registerToolHelper na config_a handler_a this = Inr this1 \<and>
         registerToolHelper na config handler this1 = Inl (DuplicateNameError na) \<and>
         registerToolHelper nb config_b handler_b this1 = Inr this2 \<and>
         callTool run na args_a this2 = run handler_a args_a this2 \<and>
         callTool run nb args_b this2 = run handler_b args_b this2"
    by blast
qed

theorem distinct_names_register_duplicate_fails_witness:
  "\<exists>srv. GreetingsMCP_constructor std_app_params = Inr srv \<and>
     registerToolHelper ''greet''
       \<lparr>description = ''Greet again'', inputSchema = [], outputSchema = []\<rparr> H_customGreet srv =
       Inl (DuplicateNameError ''greet'') \<and>
     (\<exists>this1 this2.
        registerToolHelper ''custom_greet''
          \<lparr>description = ''first'', inputSchema = [], outputSchema = []\<rparr> H_customGreet srv =
          Inr this1 \<and>
        registerToolHelper ''greet_too''
          \<lparr>description = ''second'', inputSchema = [], outputSchema = []\<rparr> H_greet this1 =
          Inr this2 \<and>
        callTool GreetingsMCP_run ''custom_greet'' (customGreet_args ''Ada'' ''Hi'') this2 =
          Inr (customGreet ''Ada'' ''Hi'' :: unit CallToolResult, this2) \<and>
        callTool GreetingsMCP_run ''greet_too'' (greet_args ''Ada'') this2 =
          Inr (greet this2 ''Ada'' :: unit CallToolResult, this2))"
proof -
  obtain srv where srv: "GreetingsMCP_constructor std_app_params = Inr srv"
    and tools: "map_of (registeredTools srv) ''greet'' \<noteq> None"
      "map_of (registeredTools srv) ''custom_greet'' = None"
      "map_of (registeredTools srv) ''greet_too'' = None"
    by (simp add: GreetingsMCP_constructor_eq [OF parse_std_app_params])
  have ne: "''custom_greet'' \<noteq> ''greet_too''" by simp
  show ?thesis
    using srv tools ne
      distinct_names_register_duplicate_fails [where this = srv and n = "''greet''" and na = "''custom_greet''" and nb = "''greet_too''"
        and config = "\<lparr>description = ''Greet again'', inputSchema = [], outputSchema = []\<rparr>"
        and handler = H_customGreet
        and config_a = "\<lparr>description = ''first'', inputSchema = [], outputSchema = []\<rparr>"
        and handler_a = H_customGreet
        and config_b = "\<lparr>description = ''second'', inputSchema = [], outputSchema = []\<rparr>"
        and handler_b = H_greet
        and run = "GreetingsMCP_run :: greetings_handler \<Rightarrow> greetings_args
           \<Rightarrow> greetings_handler BaseMCPServer
           \<Rightarrow> error + unit CallToolResult \<times> greetings_handler BaseMCPServer"
        and args_a = "customGreet_args ''Ada'' ''Hi''" and args_b = "greet_args ''Ada''"]
    by (auto simp: GreetingsMCP_run_def)
qed

text \<open>
  C6. On a greetings server whose registry has the tool \<open>regiter_custom_greeting\<close> and no
  tool \<open>custom_greet\<close>, invoking \<open>regiter_custom_greeting\<close> returns a result, and the
  server it leaves differs from the one before in one thing: the tool \<open>custom_greet\<close>
  has been added at the end of the registry. Every other tool name resolves as before,
  and the resources are as before.
\<close>

theorem handler_registration_extends_registry:
  assumes "map_of (registeredTools this) ''regiter_custom_greeting'' = Some tool"
    and "tool_handler tool = H_registerCustomGreeting"
    and "map_of (registeredTools this) ''custom_greet'' = None"
  shows "\<exists>result this'.
     callTool GreetingsMCP_run ''regiter_custom_greeting'' args this = Inr (result, this') \<and>
     this' = this\<lparr>registeredTools :=
               registeredTools this @
                 [(''custom_greet'',
                   \<lparr>tool_config =
                      \<lparr>description = ''Greet the user with a custom message'',
                       inputSchema = [(''name'', z_string), (''message'', z_string)],
                       outputSchema = [(''text'', z_string)]\<rparr>,
                    tool_handler = H_customGreet\<rparr>)]\<rparr> \<and>
     map_of (registeredTools this') ''custom_greet'' =
       Some \<lparr>tool_config =
               \<lparr>description = ''Greet the user with a custom message'',
                inputSchema = [(''name'', z_string), (''message'', z_string)],
                outputSchema = [(''text'', z_string)]\<rparr>,
             tool_handler = H_customGreet\<rparr> \<and>
     (\<forall>n. n \<noteq> ''custom_greet'' \<longrightarrow>
        map_of (registeredTools this') n = map_of (registeredTools this) n) \<and>
     registeredResources this' = registeredResources this"
  using assms
  by (simp add: callTool_def GreetingsMCP_run_def registerCustomGreeting_def
      registerToolHelper_new map_add_def split: option.splits)

theorem handler_registration_extends_registry_witness:
  "\<exists>srv result srv'.
     GreetingsMCP_constructor std_app_params = Inr srv \<and>
     map_of (registeredTools srv) ''custom_greet'' = None \<and>
     callTool GreetingsMCP_run ''regiter_custom_greeting'' no_args srv =
       Inr (result :: unit CallToolResult, srv') \<and>
     map_of (registeredTools srv') ''custom_greet'' \<noteq> None \<and>
     map_of (registeredTools srv') ''greet'' = map_of (registeredTools srv) ''greet'' \<and>
     map_of (registeredTools srv') ''regiter_custom_greeting'' =
       map_of (registeredTools srv) ''regiter_custom_greeting'' \<and>
     registeredResources srv' = registeredResources srv"
proof -
  obtain srv where srv: "GreetingsMCP_constructor std_app_params = Inr srv"
    and tools:
      "map_of (registeredTools srv) ''regiter_custom_greeting'' =
         Some \<lparr>tool_config =
                 \<lparr>description = ''This tool will register new custom greeting message'',
                  inputSchema = [],
                  outputSchema = [(''text'', z_string)]\<rparr>,
               tool_handler = H_registerCustomGreeting\<rparr>"
      "map_of (registeredTools srv) ''custom_greet'' = None"
    by (simp add: GreetingsMCP_constructor_eq [OF parse_std_app_params])
  have h: "tool_handler
      \<lparr>tool_config =
                 \<lparr>description = ''This tool will register new custom greeting message'',
                  inputSchema = [],
                  outputSchema = [(''text'', z_string)]\<rparr>,
               tool_handler = H_registerCustomGreeting\<rparr> = H_registerCustomGreeting"
    by simp
  obtain result :: "unit CallToolResult" and srv' where
    call: "callTool GreetingsMCP_run ''regiter_custom_greeting'' no_args srv = Inr (result, srv')"
    and new: "map_of (registeredTools srv') ''custom_greet'' =
       Some \<lparr>tool_config =
               \<lparr>description = ''Greet the user with a custom message'',
                inputSchema = [(''name'', z_string), (''message'', z_string)],
                outputSchema = [(''text'', z_string)]\<rparr>,
             tool_handler = H_customGreet\<rparr>"
    and old: "\<forall>n. n \<noteq> ''custom_greet'' \<longrightarrow>
        map_of (registeredTools srv') n = map_of (registeredTools srv) n"
    and res: "registeredResources srv' = registeredResources srv"
    using handler_registration_extends_registry [OF tools(1) h tools(2), of no_args] by blast
  have "map_of (registeredTools srv') ''greet'' = map_of (registeredTools srv) ''greet''"
    "map_of (registeredTools srv') ''regiter_custom_greeting'' =
       map_of (registeredTools srv) ''regiter_custom_greeting''"
    using old by simp_all
  with srv tools call new res show ?thesis by auto
qed

text \<open>
  C7, as stated, fails: the name "T" has one character, the schema asks for two, and the
  construction from \<open>{name: "T", version: "1.0", transportMode: "stdio"}\<close> throws the
  validation error for the name. No server exists whose \<open>greet\<close> tool could be invoked.
\<close>

theorem one_character_server_name_rejected:
  "GreetingsMCP_constructor
     \<lparr>raw_name = ''T'', raw_version = ''1.0'', raw_host = None, raw_port = None,
      raw_transportMode = Some ''stdio'', raw_transport = None\<rparr> =
   Inl (ValidationError [''name''])"
  by (simp add: GreetingsMCP_constructor_def BaseMCPServer_constructor_def
      BaseMCPConfigSchema_parse_def z_default_def z_string_min_max_def z_enum_TransportMode_def)

text \<open>
  C7, amended. For every name of 2 to 100 characters, constructing a greetings server
  with \<open>{name, version: "1.0", transportMode: "stdio"}\<close> succeeds, and invoking its
  \<open>greet\<close> tool with \<open>{name: "Ada"}\<close> returns a result whose text entry and whose
  structured payload's text field are "Hello, Ada! Welcome to " followed by the name and
  " version 1.0."; the server is left as it was.
\<close>

theorem greet_welcomes_by_server_name:
  assumes "2 \<le> length n" and "length n \<le> 100"
  shows "\<exists>srv.
     GreetingsMCP_constructor
       \<lparr>raw_name = n, raw_version = ''1.0'', raw_host = None, raw_port = None,
        raw_transportMode = Some ''stdio'', raw_transport = None\<rparr> = Inr srv \<and>
     callTool GreetingsMCP_run ''greet'' (greet_args ''Ada'') srv =
       Inr (\<lparr>content =
               [text_content (''Hello, Ada! Welcome to '' @ n @ '' version 1.0.'')],
             structuredContent =
               Some [(''text'', JString (''Hello, Ada! Welcome to '' @ n @ '' version 1.0.''))]\<rparr>,
            srv)"
  by (simp add: GreetingsMCP_constructor_eq [OF parse_name_only [OF assms]] callTool_def
      GreetingsMCP_run_def greet_def initializeTransport_fields)

theorem greet_welcomes_by_server_name_witness:
  "\<exists>srv.
     GreetingsMCP_constructor
       \<lparr>raw_name = ''T1'', raw_version = ''1.0'', raw_host = None, raw_port = None,
        raw_transportMode = Some ''stdio'', raw_transport = None\<rparr> = Inr srv \<and>
     callTool GreetingsMCP_run ''greet'' (greet_args ''Ada'') srv =
       Inr (\<lparr>content = [text_content ''Hello, Ada! Welcome to T1 version 1.0.''],
             structuredContent =
               Some [(''text'', JString ''Hello, Ada! Welcome to T1 version 1.0.'')]\<rparr>
            :: unit CallToolResult, srv)"
  using greet_welcomes_by_server_name [of "''T1''"] by simp

section \<open>Properties of the calculator\<close>



end
